theory Spec2Isabelle
  imports Complex_Main "HOL-Library.Multiset"
begin

section \<open>Values, documents and errors\<close>

text \<open>
  The module \<^verbatim>\<open>rag.py\<close> is a sequential pipeline: load a PDF, split it into chunks,
  embed the chunks, store them in a vector collection, and answer queries by a
  nearest-neighbour search. Every \<^verbatim>\<open>raise\<close> of the module, and every exception of a
  Python built-in it calls, is a value of \<open>error\<close>; a function that can raise returns
  \<open>error + 'a\<close> with \<open>Inl\<close> for the exception.
\<close>

datatype error =
    FileNotFoundError string
  | AttributeError
  | IndexError
  | ValueError
  | ParseError
  | CollectionNotFound
  | DimensionMismatch

text \<open>
  The values a metadata dictionary or a stored record holds: strings, integers and
  vectors of floats. Floats are modelled as exact reals: rounding is not represented.
\<close>

datatype pyval = PStr string | PInt int | PVec "real list"

text \<open>
  A document (a page, or a chunk of one). \<^verbatim>\<open>hasattr(doc, 'page_content')\<close> is
  \<open>page_content doc \<noteq> None\<close>; \<^verbatim>\<open>doc.metadata\<close> is a dictionary.
\<close>

record document =
  page_content :: "string option"
  metadata :: "string \<Rightarrow> pyval option"

text \<open>
  A record of \<^verbatim>\<open>dict_list\<close>: a Python dictionary in insertion order, as a list of
  key and value pairs.
\<close>

type_synonym chunk_dict = "(string \<times> pyval) list"

section \<open>The splitter's configuration\<close>

definition CHUNK_SIZE :: nat where
  "CHUNK_SIZE = 384"

text \<open>
  \<^verbatim>\<open>chunk_overlap = int(CHUNK_SIZE * 0.3)\<close>. \<^verbatim>\<open>int\<close> truncates, which on a
  non-negative number is the floor. The binary64 product is 115.19999999999999, the
  exact one is 115.2: both truncate to the same integer.
\<close>

definition chunk_overlap :: nat where
  "chunk_overlap = nat \<lfloor>(of_nat CHUNK_SIZE :: rat) * (3 / 10)\<rfloor>"

record splitter_config =
  cfg_chunk_size :: nat
  cfg_chunk_overlap :: nat
  cfg_separators :: "string list"

text \<open>
  \<^verbatim>\<open>child_splitter = RecursiveCharacterTextSplitter(chunk_size=CHUNK_SIZE,
  chunk_overlap=chunk_overlap, separators=["\n\n", "\n", ". ", ", ", " ", ""])\<close>.
  The character \<^verbatim>\<open>\n\<close> is \<open>CHR 0x0A\<close>.
\<close>

definition child_splitter :: splitter_config where
  "child_splitter =
     \<lparr>cfg_chunk_size = CHUNK_SIZE,
      cfg_chunk_overlap = chunk_overlap,
      cfg_separators = [[CHR 0x0A, CHR 0x0A], [CHR 0x0A], ''. '', '', '', '' '', '''']\<rparr>"

section \<open>The external collaborators\<close>

text \<open>
  The sentence-embedding model. \<^verbatim>\<open>encoder.encode\<close> is called in two shapes: on a list
  of strings (a matrix with one row per string comes back) and on one string (one vector
  comes back). Nothing relates the two here.
\<close>

record encoder =
  encode_batch :: "string list \<Rightarrow> real list list"
  encode_single :: "string \<Rightarrow> real list"
  get_sentence_embedding_dimension :: nat
  get_max_seq_length :: nat

text \<open>
  What the module reaches outside itself: \<^verbatim>\<open>os.path.exists\<close>,
  \<^verbatim>\<open>PyPDFLoader(path).load()\<close>, the splitter's \<^verbatim>\<open>split_documents\<close> and the
  constructor \<^verbatim>\<open>SentenceTransformer(model_name, device)\<close>. They are parameters of the
  model: the theorems hold for every choice of them.
\<close>

record env =
  os_path_exists :: "string \<Rightarrow> bool"
  PyPDFLoader_load :: "string \<Rightarrow> error + document list"
  split_documents :: "splitter_config \<Rightarrow> document list \<Rightarrow> document list"
  SentenceTransformer :: "string \<Rightarrow> encoder"

section \<open>Loading\<close>

definition model_name :: string where
  "model_name = ''BAAI/bge-large-en-v1.5''"

definition load_embedding_model :: "env \<Rightarrow> encoder \<times> nat \<times> nat" where
  "load_embedding_model e =
     (let encoder = SentenceTransformer e model_name;
          embedding_dim = get_sentence_embedding_dimension encoder;
          max_seq_length = get_max_seq_length encoder
      in (encoder, embedding_dim, max_seq_length))"

definition load_file :: "env \<Rightarrow> string \<Rightarrow> error + document list" where
  "load_file e pdf_path =
     (if \<not> os_path_exists e pdf_path
      then Inl (FileNotFoundError
                 (''File not found: '' @ pdf_path @ ''. Please provide a valid file path.''))
      else PyPDFLoader_load e pdf_path)"

section \<open>Normalisation\<close>

text \<open>
  Modelled from the spec: the tensor library's \<^verbatim>\<open>F.normalize(x, p=2, dim=1)\<close>, which
  is not part of the repository. The spec calls it L2 normalisation to unit length; the
  library documents it as \<open>v / max(\<parallel>v\<parallel>\<^sub>2, eps)\<close> on every row \<open>v\<close>, with
  \<open>eps = 1e-12\<close>. The program computes it in 32-bit floats. Of that arithmetic one
  effect is written here: when the sum of the squares is beyond the largest 32-bit float,
  \<open>(2\<^sup>2\<^sup>4 - 1) * 2\<^sup>1\<^sup>0\<^sup>4\<close>, the norm is infinite and every component of the row
  divided by it is 0. Rounding is not represented: below that bound the formula is
  computed on exact reals.
\<close>

definition float32_max :: real where
  "float32_max = (2 ^ 24 - 1) * 2 ^ 104"

definition eps :: real where
  "eps = 1 / 10 ^ 12"

definition l2_norm :: "real list \<Rightarrow> real" where
  "l2_norm v = sqrt (\<Sum>x\<leftarrow>v. x ^ 2)"

definition normalize_row :: "real list \<Rightarrow> real list" where
  "normalize_row v =
     (if float32_max < (\<Sum>x\<leftarrow>v. x ^ 2) then map (\<lambda>x. 0) v
      else map (\<lambda>x. x / max (l2_norm v) eps) v)"

definition F_normalize :: "real list list \<Rightarrow> real list list" where
  "F_normalize rows = map normalize_row rows"

section \<open>Chunking and embedding\<close>

text \<open>
  A tensor is a list of rows, and \<^verbatim>\<open>torch.tensor\<close>, \<^verbatim>\<open>numpy()\<close>,
  \<^verbatim>\<open>astype(np.float32)\<close> and \<^verbatim>\<open>tolist()\<close> leave its values as they are. With no
  chunk at all the program hands \<^verbatim>\<open>F.normalize(dim=1)\<close> the tensor of an empty answer;
  what the libraries do with it is theirs and is not represented, and the model returns
  no record. Every theorem below about a record of \<open>encode_docs\<close> is about a run with
  at least one.

  \<^verbatim>\<open>[doc.page_content for doc in chunks if hasattr(doc, 'page_content')]\<close>
\<close>

definition list_of_strings :: "document list \<Rightarrow> string list" where
  "list_of_strings chunks = List.map_filter page_content chunks"

text \<open>
  \<^verbatim>\<open>metadata.get(key, default)\<close>
\<close>

definition dict_get :: "(string \<Rightarrow> pyval option) \<Rightarrow> string \<Rightarrow> pyval \<Rightarrow> pyval" where
  "dict_get d k dflt = (case d k of None \<Rightarrow> dflt | Some v \<Rightarrow> v)"

text \<open>
  The loop \<^verbatim>\<open>for chunk, vector in zip(chunks, embeddings)\<close>. Reading
  \<^verbatim>\<open>chunk.page_content\<close> of a chunk that has none raises \<^verbatim>\<open>AttributeError\<close>.
\<close>

fun build_dict_list :: "(document \<times> real list) list \<Rightarrow> error + chunk_dict list" where
  "build_dict_list [] = Inr []"
| "build_dict_list ((chunk, vector) # rest) =
     (case page_content chunk of
        None \<Rightarrow> Inl AttributeError
      | Some t \<Rightarrow>
          (let chunk_dict =
                 [(''chunk'', PStr t),
                  (''source'', dict_get (metadata chunk) ''source'' (PStr '''')),
                  (''page'', dict_get (metadata chunk) ''page'' (PInt 0)),
                  (''vector'', PVec vector)]
           in case build_dict_list rest of
                Inl err \<Rightarrow> Inl err
              | Inr dict_list \<Rightarrow> Inr (chunk_dict # dict_list)))"

definition encode_docs :: "env \<Rightarrow> document list \<Rightarrow> encoder \<Rightarrow> error + chunk_dict list" where
  "encode_docs e docs enc =
     (let chunks = split_documents e child_splitter docs;
          embeddings = F_normalize (encode_batch enc (list_of_strings chunks))
      in build_dict_list (zip chunks embeddings))"

section \<open>The vector store\<close>

text \<open>
  The store is the Milvus client library, which is not part of the repository: the
  module only calls it. A store holds collections, found by the database file a client
  was opened on and by the collection's name. A collection holds its declared dimension
  and its entities in the order of insertion, each with the identifier the store gave it.
  The first \<open>col_visible\<close> of them are the ones whose insertion has become visible to
  a search that does not ask for strong consistency.
\<close>

record milvus_client =
  db_file :: string

record collection =
  col_dimension :: nat
  col_consistency_level :: string
  col_auto_id :: bool
  col_next_id :: nat
  col_visible :: nat
  col_entities :: "(nat \<times> chunk_dict) list"

type_synonym store = "string \<times> string \<Rightarrow> collection option"

record hit =
  hit_id :: nat
  distance :: real
  entity :: chunk_dict

definition MilvusClient :: "string \<Rightarrow> milvus_client" where
  "MilvusClient uri = \<lparr>db_file = uri\<rparr>"

text \<open>
  Modelled from the spec: the store's \<^verbatim>\<open>create_collection\<close>, which is not part of the
  repository. The spec: "createCollection with overwrite=true drops any existing
  collection of the same name first". Without \<^verbatim>\<open>overwrite\<close> (a call the module never
  makes) an existing collection is left as it is.
\<close>

definition create_collection ::
  "store \<Rightarrow> milvus_client \<Rightarrow> string \<Rightarrow> nat \<Rightarrow> string \<Rightarrow> bool \<Rightarrow> bool \<Rightarrow> store" where
  "create_collection st mc name dimension consistency_level auto_id overwrite =
     (if overwrite \<or> st (db_file mc, name) = None
      then st((db_file mc, name) \<mapsto>
             \<lparr>col_dimension = dimension,
              col_consistency_level = consistency_level,
              col_auto_id = auto_id,
              col_next_id = 0,
              col_visible = 0,
              col_entities = []\<rparr>)
      else st)"

definition vector_of :: "chunk_dict \<Rightarrow> real list" where
  "vector_of d = (case map_of d ''vector'' of Some (PVec v) \<Rightarrow> v | _ \<Rightarrow> [])"

definition has_vector :: "nat \<Rightarrow> chunk_dict \<Rightarrow> bool" where
  "has_vector n d =
     (case map_of d ''vector'' of Some (PVec v) \<Rightarrow> length v = n | _ \<Rightarrow> False)"

text \<open>
  Modelled from the spec: the store's \<^verbatim>\<open>insert\<close>, which is not part of the repository.
  The spec: "insert assigns a unique identifier per record if none is supplied
  (auto-id)", it is "atomic-per-call", and its failure modes are "CollectionNotFound
  (search/insert against nonexistent collection), DimensionMismatch (vector length
  \<noteq> collection's declared dimension)". The inserted records are not visible yet:
  "a record inserted immediately before a search is not guaranteed to be visible to that
  search".
\<close>

definition mc_insert ::
  "store \<Rightarrow> milvus_client \<Rightarrow> string \<Rightarrow> chunk_dict list \<Rightarrow> error + store" where
  "mc_insert st mc name data =
     (case st (db_file mc, name) of
        None \<Rightarrow> Inl CollectionNotFound
      | Some c \<Rightarrow>
          if list_all (has_vector (col_dimension c)) data
          then Inr (st((db_file mc, name) \<mapsto>
                 c\<lparr>col_next_id := col_next_id c + length data,
                   col_entities := col_entities c
                     @ zip [col_next_id c ..< col_next_id c + length data] data\<rparr>))
          else Inl DimensionMismatch)"

text \<open>
  Modelled from the spec: the passing of the delay after which writes are visible. The
  spec: eventual consistency is "a store guarantee that writes become visible to reads
  after an unspecified but bounded delay". The module has no call for it; it is what the
  store does on its own between two calls.
\<close>

definition settle :: "store \<Rightarrow> string \<times> string \<Rightarrow> store" where
  "settle st key =
     (case st key of
        None \<Rightarrow> st
      | Some c \<Rightarrow> st(key \<mapsto> c\<lparr>col_visible := length (col_entities c)\<rparr>))"

text \<open>
  The entities a search reads: all of them when it asks for the consistency level
  \<^verbatim>\<open>Strong\<close>, and the visible ones otherwise.
\<close>

definition visible_entities :: "collection \<Rightarrow> string \<Rightarrow> (nat \<times> chunk_dict) list" where
  "visible_entities c consistency_level =
     (if consistency_level = ''Strong'' then col_entities c
      else take (col_visible c) (col_entities c))"

text \<open>
  Modelled from the spec: the store's \<^verbatim>\<open>search\<close>, which is not part of the repository.
  The spec: it "performs approximate/exact nearest-neighbor lookup by the store's
  configured distance/similarity metric (cosine similarity, implemented as inner product
  on normalized vectors), returns at most topK results ordered best-first; outputFields
  controls which non-vector attributes are included in each result". One list of hits
  comes back per query vector. The lookup is the exact one.
\<close>

definition inner_product :: "real list \<Rightarrow> real list \<Rightarrow> real" where
  "inner_product q v = (\<Sum>(a, b)\<leftarrow>zip q v. a * b)"

definition similarity :: "real list \<Rightarrow> nat \<times> chunk_dict \<Rightarrow> real" where
  "similarity q e = inner_product q (vector_of (snd e))"

definition best_first :: "real list \<Rightarrow> (nat \<times> chunk_dict) list \<Rightarrow> (nat \<times> chunk_dict) list" where
  "best_first q es = sort_key (\<lambda>e. - similarity q e) es"

definition to_hit :: "real list \<Rightarrow> string list \<Rightarrow> nat \<times> chunk_dict \<Rightarrow> hit" where
  "to_hit q output_fields e =
     \<lparr>hit_id = fst e,
      distance = similarity q e,
      entity = filter (\<lambda>kv. fst kv \<in> set output_fields) (snd e)\<rparr>"

definition mc_search ::
  "store \<Rightarrow> milvus_client \<Rightarrow> string \<Rightarrow> real list list \<Rightarrow> string list \<Rightarrow> nat \<Rightarrow> string
     \<Rightarrow> error + hit list list" where
  "mc_search st mc name data output_fields limit consistency_level =
     (case st (db_file mc, name) of
        None \<Rightarrow> Inl CollectionNotFound
      | Some c \<Rightarrow>
          if list_all (\<lambda>q. length q = col_dimension c) data
          then Inr (map (\<lambda>q. map (to_hit q output_fields)
                               (take limit
                                  (best_first q (visible_entities c consistency_level))))
                         data)
          else Inl DimensionMismatch)"

section \<open>The pipeline\<close>

definition COLLECTION_NAME :: string where
  "COLLECTION_NAME = ''pdfs''"

text \<open>
  \<^verbatim>\<open>save_vectors_to_db\<close> opens the client, creates the collection and inserts. The
  store is threaded through: the result is the client (or the exception) and the store
  the calls leave behind.
\<close>

definition save_vectors_to_db ::
  "store \<Rightarrow> chunk_dict list \<Rightarrow> nat \<Rightarrow> (error + milvus_client) \<times> store" where
  "save_vectors_to_db st dict_list embedding_dim =
     (let mc = MilvusClient ''db/rag.db'';
          st1 = create_collection st mc COLLECTION_NAME embedding_dim ''Eventually'' True True
      in case mc_insert st1 mc COLLECTION_NAME dict_list of
           Inl err \<Rightarrow> (Inl err, st1)
         | Inr st2 \<Rightarrow> (Inr mc, st2))"

text \<open>
  The query vector of \<^verbatim>\<open>search\<close>: \<^verbatim>\<open>encoder.encode(question)\<close>, made a matrix of one
  row by \<^verbatim>\<open>unsqueeze(0)\<close>, normalised along \<^verbatim>\<open>dim=1\<close>.
\<close>

definition query_embeddings :: "encoder \<Rightarrow> string \<Rightarrow> real list list" where
  "query_embeddings enc question = F_normalize [encode_single enc question]"

text \<open>
  \<^verbatim>\<open>search(mc, encoder, dict_list, question, top_k=5)\<close>. The argument \<open>top_k\<close> is
  \<open>None\<close> when the caller leaves it out. \<^verbatim>\<open>dict_list[0]\<close> raises \<^verbatim>\<open>IndexError\<close> on
  an empty list, and \<^verbatim>\<open>OUTPUT_FIELDS.remove('vector')\<close> raises \<^verbatim>\<open>ValueError\<close> when
  the first record has no such key. The printing that follows the store's answer does
  not change it.
\<close>

definition search ::
  "store \<Rightarrow> milvus_client \<Rightarrow> encoder \<Rightarrow> chunk_dict list \<Rightarrow> string \<Rightarrow> nat option
     \<Rightarrow> error + hit list list" where
  "search st mc enc dict_list question top_k =
     (let limit = (case top_k of None \<Rightarrow> 5 | Some k \<Rightarrow> k);
          q = query_embeddings enc question
      in case dict_list of
           [] \<Rightarrow> Inl IndexError
         | d0 # _ \<Rightarrow>
             (let OUTPUT_FIELDS = map fst d0
              in if ''vector'' \<notin> set OUTPUT_FIELDS then Inl ValueError
                 else mc_search st mc COLLECTION_NAME q (remove1 ''vector'' OUTPUT_FIELDS)
                        limit ''Eventually''))"

definition init_rag ::
  "env \<Rightarrow> store \<Rightarrow> string \<Rightarrow> bool
     \<Rightarrow> (error + milvus_client \<times> encoder \<times> chunk_dict list) \<times> store" where
  "init_rag e st pdf_path force_reload =
     (case load_file e pdf_path of
        Inl err \<Rightarrow> (Inl err, st)
      | Inr docs \<Rightarrow>
          (case load_embedding_model e of
             (encoder, embedding_dim, max_seq_length) \<Rightarrow>
               (case encode_docs e docs encoder of
                  Inl err \<Rightarrow> (Inl err, st)
                | Inr dict_list \<Rightarrow>
                    (case save_vectors_to_db st dict_list embedding_dim of
                       (Inl err, st') \<Rightarrow> (Inl err, st')
                     | (Inr mc, st') \<Rightarrow> (Inr (mc, encoder, dict_list), st')))))"

definition rag_search ::
  "store \<Rightarrow> milvus_client \<Rightarrow> encoder \<Rightarrow> chunk_dict list \<Rightarrow> string \<Rightarrow> nat option
     \<Rightarrow> error + hit list list" where
  "rag_search st mc enc dict_list question top_k =
     search st mc enc dict_list question
       (Some (case top_k of None \<Rightarrow> 5 | Some k \<Rightarrow> k))"

section \<open>Typing of metadata\<close>

text \<open>
  What the data model asks of a page: its source is a string and its page number is a
  non-negative integer. A key that is absent asks nothing.
\<close>

definition is_string :: "pyval \<Rightarrow> bool" where
  "is_string v = (case v of PStr s \<Rightarrow> True | _ \<Rightarrow> False)"

definition is_page_number :: "pyval \<Rightarrow> bool" where
  "is_page_number v = (case v of PInt n \<Rightarrow> 0 \<le> n | _ \<Rightarrow> False)"

definition well_typed_metadata :: "document \<Rightarrow> bool" where
  "well_typed_metadata doc =
     ((case metadata doc ''source'' of None \<Rightarrow> True | Some v \<Rightarrow> is_string v) \<and>
      (case metadata doc ''page'' of None \<Rightarrow> True | Some v \<Rightarrow> is_page_number v))"

section \<open>Concrete inputs\<close>

text \<open>
  A small world to run the pipeline in: one file \<^verbatim>\<open>a.pdf\<close> with a single page whose
  metadata has a source and no page number, a splitter that returns every page as one
  chunk, and two models of dimension 2. The first embeds a text as (its length, 0); the
  second embeds every text as the zero vector. \<open>example_store\<close> is the store that
  ingesting \<^verbatim>\<open>a.pdf\<close> leaves: its one record is not visible yet.
\<close>

definition example_doc :: document where
  "example_doc =
     \<lparr>page_content = Some ''ab'', metadata = [''source'' \<mapsto> PStr ''a.pdf'']\<rparr>"

definition length_encoder :: encoder where
  "length_encoder =
     \<lparr>encode_batch = map (\<lambda>t. [real (length t), 0]),
      encode_single = (\<lambda>t. [real (length t), 0]),
      get_sentence_embedding_dimension = 2,
      get_max_seq_length = 512\<rparr>"

definition zero_encoder :: encoder where
  "zero_encoder =
     \<lparr>encode_batch = map (\<lambda>t. [0, 0]),
      encode_single = (\<lambda>t. [0, 0]),
      get_sentence_embedding_dimension = 2,
      get_max_seq_length = 512\<rparr>"

definition example_env :: env where
  "example_env =
     \<lparr>os_path_exists = (\<lambda>p. p = ''a.pdf''),
      PyPDFLoader_load = (\<lambda>p. Inr [example_doc]),
      split_documents = (\<lambda>cfg docs. docs),
      SentenceTransformer = (\<lambda>n. length_encoder)\<rparr>"

definition example_dict :: chunk_dict where
  "example_dict =
     [(''chunk'', PStr ''ab''), (''source'', PStr ''a.pdf''), (''page'', PInt 0),
      (''vector'', PVec [1, 0])]"

definition zero_dict :: chunk_dict where
  "zero_dict =
     [(''chunk'', PStr ''ab''), (''source'', PStr ''a.pdf''), (''page'', PInt 0),
      (''vector'', PVec [0, 0])]"

definition example_collection :: collection where
  "example_collection =
     \<lparr>col_dimension = 2, col_consistency_level = ''Eventually'', col_auto_id = True,
      col_next_id = 1, col_visible = 0, col_entities = [(0, example_dict)]\<rparr>"

definition example_store :: store where
  "example_store = [(''db/rag.db'', ''pdfs'') \<mapsto> example_collection]"

text \<open>
  More inputs: a second page with no metadata at all, a page whose metadata is not
  typed as the data model says, a model that tells texts of even length from texts of
  odd length, and a model that answers a batch differently from a single text. The
  store \<open>two_store\<close> holds the records of the two pages, both visible.
\<close>

definition bare_doc :: document where
  "bare_doc = \<lparr>page_content = Some ''abc'', metadata = Map.empty\<rparr>"

definition ill_typed_doc :: document where
  "ill_typed_doc =
     \<lparr>page_content = Some ''ab'',
      metadata = [''source'' \<mapsto> PInt 7, ''page'' \<mapsto> PInt (- 1)]\<rparr>"

definition parity_encoder :: encoder where
  "parity_encoder =
     \<lparr>encode_batch = map (\<lambda>t. if even (length t) then [0, 2] else [3, 0]),
      encode_single = (\<lambda>t. if even (length t) then [0, 2] else [3, 0]),
      get_sentence_embedding_dimension = 2,
      get_max_seq_length = 512\<rparr>"

definition split_encoder :: encoder where
  "split_encoder =
     \<lparr>encode_batch = map (\<lambda>t. [1, 0]),
      encode_single = (\<lambda>t. [0, 1]),
      get_sentence_embedding_dimension = 2,
      get_max_seq_length = 512\<rparr>"

definition dict_ab :: chunk_dict where
  "dict_ab =
     [(''chunk'', PStr ''ab''), (''source'', PStr ''a.pdf''), (''page'', PInt 0),
      (''vector'', PVec [0, 1])]"

definition dict_abc :: chunk_dict where
  "dict_abc =
     [(''chunk'', PStr ''abc''), (''source'', PStr ''''), (''page'', PInt 0),
      (''vector'', PVec [1, 0])]"

definition ill_typed_dict :: chunk_dict where
  "ill_typed_dict =
     [(''chunk'', PStr ''ab''), (''source'', PInt 7), (''page'', PInt (- 1)),
      (''vector'', PVec [1, 0])]"

definition two_store :: store where
  "two_store =
     [(''db/rag.db'', ''pdfs'') \<mapsto>
        \<lparr>col_dimension = 2, col_consistency_level = ''Eventually'', col_auto_id = True,
         col_next_id = 2, col_visible = 2,
         col_entities = [(0, dict_ab), (1, dict_abc)]\<rparr>]"

section \<open>Running the concrete inputs\<close>

lemma example_load_file: "load_file example_env ''a.pdf'' = Inr [example_doc]"
  by (simp add: load_file_def example_env_def)

lemma example_load_embedding_model:
  "load_embedding_model example_env = (length_encoder, 2, 512)"
  by (simp add: load_embedding_model_def Let_def example_env_def length_encoder_def)

lemma example_encode_docs:
  "encode_docs example_env [example_doc] length_encoder = Inr [example_dict]"
  by (simp add: encode_docs_def example_env_def example_doc_def length_encoder_def
      example_dict_def list_of_strings_def F_normalize_def normalize_row_def l2_norm_def
      eps_def float32_max_def dict_get_def)

lemma example_encode_docs_zero:
  "encode_docs example_env [example_doc] zero_encoder = Inr [zero_dict]"
  by (simp add: encode_docs_def example_env_def example_doc_def zero_encoder_def
      zero_dict_def list_of_strings_def F_normalize_def normalize_row_def l2_norm_def
      eps_def float32_max_def dict_get_def)

lemma example_save_vectors_to_db:
  "save_vectors_to_db st [example_dict] 2 = (Inr (MilvusClient ''db/rag.db''),
     st((''db/rag.db'', ''pdfs'') \<mapsto> example_collection))"
  by (simp add: save_vectors_to_db_def Let_def create_collection_def mc_insert_def
      MilvusClient_def COLLECTION_NAME_def has_vector_def example_dict_def
      example_collection_def)

lemma example_init_rag:
  "init_rag example_env st ''a.pdf'' False =
     (Inr (MilvusClient ''db/rag.db'', length_encoder, [example_dict]),
      st((''db/rag.db'', ''pdfs'') \<mapsto> example_collection))"
  by (simp add: init_rag_def example_load_file example_load_embedding_model
      example_encode_docs example_save_vectors_to_db)

section \<open>The records that \<open>encode_docs\<close> builds\<close>

lemma build_dict_list_Inr:
  "build_dict_list ps = Inr ds \<Longrightarrow>
     length ds = length ps \<and>
     (\<forall>i<length ps. \<exists>t. page_content (fst (ps ! i)) = Some t \<and>
        ds ! i = [(''chunk'', PStr t),
                  (''source'', dict_get (metadata (fst (ps ! i))) ''source'' (PStr '''')),
                  (''page'', dict_get (metadata (fst (ps ! i))) ''page'' (PInt 0)),
                  (''vector'', PVec (snd (ps ! i)))])"
proof (induction ps arbitrary: ds)
  case Nil
  then show ?case by simp
next
  case (Cons p ps)
  obtain chunk vector where p: "p = (chunk, vector)" by (cases p)
  from Cons.prems p obtain t rest where
    t: "page_content chunk = Some t" and
    rest: "build_dict_list ps = Inr rest" and
    ds: "ds = [(''chunk'', PStr t),
               (''source'', dict_get (metadata chunk) ''source'' (PStr '''')),
               (''page'', dict_get (metadata chunk) ''page'' (PInt 0)),
               (''vector'', PVec vector)] # rest"
    by (auto simp: Let_def split: option.splits sum.splits)
  from Cons.IH [OF rest] have
    len: "length rest = length ps" and
    nth: "\<And>i. i < length ps \<Longrightarrow> \<exists>t. page_content (fst (ps ! i)) = Some t \<and>
        rest ! i = [(''chunk'', PStr t),
                  (''source'', dict_get (metadata (fst (ps ! i))) ''source'' (PStr '''')),
                  (''page'', dict_get (metadata (fst (ps ! i))) ''page'' (PInt 0)),
                  (''vector'', PVec (snd (ps ! i)))]"
    by blast+
  show ?case
  proof (intro conjI allI impI)
    show "length ds = length (p # ps)" using ds len by simp
  next
    fix i assume i: "i < length (p # ps)"
    show "\<exists>t. page_content (fst ((p # ps) ! i)) = Some t \<and>
        ds ! i = [(''chunk'', PStr t),
                  (''source'', dict_get (metadata (fst ((p # ps) ! i))) ''source'' (PStr '''')),
                  (''page'', dict_get (metadata (fst ((p # ps) ! i))) ''page'' (PInt 0)),
                  (''vector'', PVec (snd ((p # ps) ! i)))]"
    proof (cases i)
      case 0
      then show ?thesis using t ds p by simp
    next
      case (Suc j)
      then have "j < length ps" using i by simp
      from nth [OF this] show ?thesis using Suc ds by simp
    qed
  qed
qed

lemma list_of_strings_prefix:
  "k \<le> length chunks \<Longrightarrow> (\<forall>j<k. page_content (chunks ! j) \<noteq> None) \<Longrightarrow> i < k \<Longrightarrow>
     i < length (list_of_strings chunks) \<and>
     page_content (chunks ! i) = Some (list_of_strings chunks ! i)"
proof (induction chunks arbitrary: k i)
  case Nil
  then show ?case by simp
next
  case (Cons c cs)
  from Cons.prems obtain k' where k: "k = Suc k'" by (cases k) auto
  from Cons.prems(2) k have c: "page_content c \<noteq> None" by auto
  then obtain t where t: "page_content c = Some t" by auto
  have los: "list_of_strings (c # cs) = t # list_of_strings cs"
    using t by (simp add: list_of_strings_def List.map_filter_simps)
  show ?case
  proof (cases i)
    case 0
    then show ?thesis using los t by simp
  next
    case (Suc j)
    have "k' \<le> length cs" using Cons.prems(1) k by simp
    moreover have "\<forall>j<k'. page_content (cs ! j) \<noteq> None"
      using Cons.prems(2) k by auto
    moreover have "j < k'" using Cons.prems(3) k Suc by simp
    ultimately have "j < length (list_of_strings cs) \<and>
        page_content (cs ! j) = Some (list_of_strings cs ! j)"
      by (rule Cons.IH)
    then show ?thesis using Suc los by simp
  qed
qed

lemma sum_squares_scale:
  "(\<Sum>x\<leftarrow>v. (x / c) ^ 2) = (\<Sum>x\<leftarrow>v. x ^ 2) / c ^ 2" for c :: real
  by (induction v) (simp_all add: power_divide add_divide_distrib)

lemma l2_norm_scale:
  assumes "0 < c"
  shows "l2_norm (map (\<lambda>x. x / c) v) = l2_norm v / c"
proof -
  have "l2_norm (map (\<lambda>x. x / c) v) = sqrt (\<Sum>x\<leftarrow>v. (x / c) ^ 2)"
    by (simp add: l2_norm_def o_def)
  also have "\<dots> = sqrt ((\<Sum>x\<leftarrow>v. x ^ 2) / c ^ 2)"
    by (simp only: sum_squares_scale)
  also have "\<dots> = l2_norm v / c"
    using assms by (simp add: l2_norm_def real_sqrt_divide)
  finally show ?thesis .
qed

lemma eps_pos: "0 < eps" by (simp add: eps_def)

lemma l2_norm_normalize_row:
  assumes "eps \<le> l2_norm v" and "(\<Sum>x\<leftarrow>v. x ^ 2) \<le> float32_max"
  shows "l2_norm (normalize_row v) = 1"
proof -
  have m: "max (l2_norm v) eps = l2_norm v" using assms(1) by simp
  have pos: "0 < l2_norm v" using assms(1) eps_pos by linarith
  have "normalize_row v = map (\<lambda>x. x / l2_norm v) v"
    using assms(2) by (simp add: normalize_row_def m)
  then show ?thesis using pos by (simp add: l2_norm_scale)
qed

text \<open>
  When \<open>encode_docs\<close> returns, record \<open>i\<close> is built from chunk \<open>i\<close>, from string \<open>i\<close>
  of the list sent to the model and from row \<open>i\<close> of what the model returned.
\<close>

lemma encode_docs_nth:
  assumes ok: "encode_docs e docs enc = Inr dict_list"
    and i: "i < length dict_list"
  defines "chunks \<equiv> split_documents e child_splitter docs"
  defines "raw \<equiv> encode_batch enc (list_of_strings chunks)"
  shows "i < length chunks \<and> i < length raw \<and> i < length (list_of_strings chunks) \<and>
     page_content (chunks ! i) = Some (list_of_strings chunks ! i) \<and>
     dict_list ! i =
       [(''chunk'', PStr (list_of_strings chunks ! i)),
        (''source'', dict_get (metadata (chunks ! i)) ''source'' (PStr '''')),
        (''page'', dict_get (metadata (chunks ! i)) ''page'' (PInt 0)),
        (''vector'', PVec (normalize_row (raw ! i)))]"
proof -
  define ps where "ps = zip chunks (F_normalize raw)"
  have b: "build_dict_list ps = Inr dict_list"
    using ok by (simp add: encode_docs_def Let_def ps_def chunks_def raw_def)
  from build_dict_list_Inr [OF b] have
    len: "length dict_list = length ps" and
    nth: "\<And>j. j < length ps \<Longrightarrow> \<exists>t. page_content (fst (ps ! j)) = Some t \<and>
        dict_list ! j = [(''chunk'', PStr t),
                  (''source'', dict_get (metadata (fst (ps ! j))) ''source'' (PStr '''')),
                  (''page'', dict_get (metadata (fst (ps ! j))) ''page'' (PInt 0)),
                  (''vector'', PVec (snd (ps ! j)))]"
    by blast+
  have lps: "length ps = min (length chunks) (length raw)"
    by (simp add: ps_def F_normalize_def)
  have ic: "i < length chunks" and ir: "i < length raw"
    using i len lps by simp_all
  have fst_ps: "\<And>j. j < length ps \<Longrightarrow> fst (ps ! j) = chunks ! j"
    using lps by (simp add: ps_def F_normalize_def)
  have snd_ps: "\<And>j. j < length ps \<Longrightarrow> snd (ps ! j) = normalize_row (raw ! j)"
    using lps by (simp add: ps_def F_normalize_def)
  have all_some: "\<forall>j<length ps. page_content (chunks ! j) \<noteq> None"
  proof (intro allI impI)
    fix j assume j: "j < length ps"
    from nth [OF j] fst_ps [OF j] show "page_content (chunks ! j) \<noteq> None" by auto
  qed
  have le: "length ps \<le> length chunks" using lps by simp
  have ips: "i < length ps" using i len by simp
  from list_of_strings_prefix [OF le all_some ips] have
    il: "i < length (list_of_strings chunks)" and
    pc: "page_content (chunks ! i) = Some (list_of_strings chunks ! i)"
    by simp_all
  from nth [OF ips] fst_ps [OF ips] snd_ps [OF ips] pc have
    "dict_list ! i =
       [(''chunk'', PStr (list_of_strings chunks ! i)),
        (''source'', dict_get (metadata (chunks ! i)) ''source'' (PStr '''')),
        (''page'', dict_get (metadata (chunks ! i)) ''page'' (PInt 0)),
        (''vector'', PVec (normalize_row (raw ! i)))]"
    by auto
  with ic ir il pc show ?thesis by simp
qed

section \<open>Ranking\<close>

lemma best_first_sorted:
  "sorted_wrt (\<ge>) (map (similarity q) (take k (best_first q es)))"
proof -
  have "sorted (map (\<lambda>e. - similarity q e) (best_first q es))"
    unfolding best_first_def by (rule sorted_sort_key)
  then have "sorted_wrt (\<lambda>a b. similarity q b \<le> similarity q a) (best_first q es)"
    by (simp add: sorted_wrt_map)
  then have "sorted_wrt (\<lambda>a b. similarity q b \<le> similarity q a) (take k (best_first q es))"
    by (rule sorted_wrt_take)
  then show ?thesis by (simp add: sorted_wrt_map)
qed

section \<open>Two facts about the model and the query\<close>


lemma query_embeddings_row:
  "query_embeddings enc question = [normalize_row (encode_single enc question)]"
  by (simp add: query_embeddings_def F_normalize_def)

section \<open>More runs of the concrete inputs\<close>

lemma example_encode_two:
  "encode_docs example_env [example_doc, bare_doc] parity_encoder = Inr [dict_ab, dict_abc]"
  by (simp add: encode_docs_def example_env_def example_doc_def bare_doc_def
      parity_encoder_def dict_ab_def dict_abc_def list_of_strings_def F_normalize_def
      normalize_row_def l2_norm_def eps_def float32_max_def dict_get_def)

lemma example_encode_ill_typed:
  "encode_docs example_env [ill_typed_doc] length_encoder = Inr [ill_typed_dict]"
  by (simp add: encode_docs_def example_env_def ill_typed_doc_def length_encoder_def
      ill_typed_dict_def list_of_strings_def F_normalize_def normalize_row_def l2_norm_def
      eps_def float32_max_def dict_get_def)

lemma example_encode_split:
  "encode_docs example_env [example_doc] split_encoder = Inr [example_dict]"
  by (simp add: encode_docs_def example_env_def example_doc_def split_encoder_def
      example_dict_def list_of_strings_def F_normalize_def normalize_row_def l2_norm_def
      eps_def float32_max_def dict_get_def)

lemma parity_encoder_batch:
  "encode_batch parity_encoder ts = map (encode_single parity_encoder) ts"
  by (simp add: parity_encoder_def)

lemma example_fields:
  "remove1 ''vector'' (map fst example_dict) = [''chunk'', ''source'', ''page'']"
  "''vector'' \<in> set (map fst example_dict)"
  "remove1 ''vector'' (map fst zero_dict) = [''chunk'', ''source'', ''page'']"
  "''vector'' \<in> set (map fst zero_dict)"
  "remove1 ''vector'' (map fst dict_ab) = [''chunk'', ''source'', ''page'']"
  "''vector'' \<in> set (map fst dict_ab)"
  by (simp_all add: example_dict_def zero_dict_def dict_ab_def)

text \<open>
  A row whose squared sum is beyond the largest 32-bit float is normalised to zeros.
\<close>

lemma normalize_row_overflow: "normalize_row [10 ^ 20, 10 ^ 20] = [0, 0]"
  by (simp add: normalize_row_def float32_max_def)

section \<open>What \<open>search\<close> sends to the store\<close>

lemma search_sends:
  "search st mc enc (d0 # ds) question top_k =
     (if ''vector'' \<notin> set (map fst d0) then Inl ValueError
      else mc_search st mc COLLECTION_NAME [normalize_row (encode_single enc question)]
             (remove1 ''vector'' (map fst d0))
             (case top_k of None \<Rightarrow> 5 | Some k \<Rightarrow> k) ''Eventually'')"
  by (simp add: search_def Let_def query_embeddings_row)

lemma best_first_mset: "mset (best_first q es) = mset es"
  by (simp add: best_first_def)

lemma best_first_ranked:
  "sorted_wrt (\<lambda>a b. similarity q b \<le> similarity q a) (best_first q es)"
proof -
  have "sorted (map (\<lambda>e. - similarity q e) (best_first q es))"
    unfolding best_first_def by (rule sorted_sort_key)
  then show ?thesis by (simp add: sorted_wrt_map)
qed

section \<open>The claims\<close>

subsection \<open>C1: stored vectors and query vectors are normalised\<close>

text \<open>
  C1, as stated, fails at a model that returns the zero vector: the page of
  \<^verbatim>\<open>a.pdf\<close> is stored with the vector (0, 0), whose norm is 0, and \<open>search\<close> sends
  the query vector (0, 0) to the store for the same text. Dividing by
  \<open>max(\<parallel>v\<parallel>\<^sub>2, eps)\<close> leaves a zero vector as it is.
\<close>

theorem zero_vector_not_unit_counterexample:
  "encode_docs example_env [example_doc] zero_encoder = Inr [zero_dict] \<and>
   map_of zero_dict ''vector'' = Some (PVec [0, 0]) \<and>
   search example_store (MilvusClient ''db/rag.db'') zero_encoder [zero_dict] ''ab'' None =
     mc_search example_store (MilvusClient ''db/rag.db'') COLLECTION_NAME [[0, 0]]
       [''chunk'', ''source'', ''page''] 5 ''Eventually'' \<and>
   l2_norm [0, 0] = 0 \<and>
   l2_norm [0, 0] \<noteq> 1"
proof -
  have stored: "map_of zero_dict ''vector'' = Some (PVec [0, 0])"
    by (simp add: zero_dict_def)
  have row: "normalize_row (encode_single zero_encoder ''ab'') = [0, 0]"
    by (simp add: normalize_row_def zero_encoder_def)
  have sent: "search example_store (MilvusClient ''db/rag.db'') zero_encoder [zero_dict]
      ''ab'' None =
     mc_search example_store (MilvusClient ''db/rag.db'') COLLECTION_NAME [[0, 0]]
       [''chunk'', ''source'', ''page''] 5 ''Eventually''"
    using example_fields by (simp add: search_sends row)
  have norm: "l2_norm [0, 0] = 0"
    by (simp add: l2_norm_def)
  from example_encode_docs_zero stored sent norm show ?thesis by simp
qed

text \<open>
  C1, amended. Every vector that \<open>encode_docs\<close> stores is the row \<open>r\<close> that the model
  returned for it, normalised, and the one query vector that \<open>search\<close> passes to the
  store is the model's answer to the question, normalised, whatever the model returned.
  The normalised row has L2 norm 1 whenever the norm of \<open>r\<close> is at least
  \<open>eps = 1e-12\<close> and the sum of its squares is within the 32-bit floats (a norm of at
  most about \<open>1.8e19\<close>). The norm is the exact one: the rounding of the 32-bit
  arithmetic is not represented.
\<close>

theorem vectors_normalized_when_in_range:
  assumes "encode_docs e docs enc = Inr dict_list"
    and "i < length dict_list"
  shows "(\<exists>r. i < length (encode_batch enc (list_of_strings (split_documents e child_splitter docs))) \<and>
          r = encode_batch enc (list_of_strings (split_documents e child_splitter docs)) ! i \<and>
          map_of (dict_list ! i) ''vector'' = Some (PVec (normalize_row r)) \<and>
          (eps \<le> l2_norm r \<and> (\<Sum>x\<leftarrow>r. x ^ 2) \<le> float32_max \<longrightarrow>
             l2_norm (normalize_row r) = 1)) \<and>
         search st mc enc (d0 # ds) question top_k =
           (if ''vector'' \<notin> set (map fst d0) then Inl ValueError
            else mc_search st mc COLLECTION_NAME [normalize_row (encode_single enc question)]
                   (remove1 ''vector'' (map fst d0))
                   (case top_k of None \<Rightarrow> 5 | Some k \<Rightarrow> k) ''Eventually'') \<and>
         (eps \<le> l2_norm (encode_single enc question) \<and>
          (\<Sum>x\<leftarrow>encode_single enc question. x ^ 2) \<le> float32_max \<longrightarrow>
            l2_norm (normalize_row (encode_single enc question)) = 1)"
proof -
  from encode_docs_nth [OF assms] have
    ir: "i < length (encode_batch enc (list_of_strings (split_documents e child_splitter docs)))"
    and vec: "map_of (dict_list ! i) ''vector'' =
      Some (PVec (normalize_row
        (encode_batch enc (list_of_strings (split_documents e child_splitter docs)) ! i)))"
    by simp_all
  have unit: "\<And>r. eps \<le> l2_norm r \<and> (\<Sum>x\<leftarrow>r. x ^ 2) \<le> float32_max \<longrightarrow>
      l2_norm (normalize_row r) = 1"
    by (simp add: l2_norm_normalize_row)
  have stored: "\<exists>r. i < length (encode_batch enc (list_of_strings (split_documents e child_splitter docs))) \<and>
          r = encode_batch enc (list_of_strings (split_documents e child_splitter docs)) ! i \<and>
          map_of (dict_list ! i) ''vector'' = Some (PVec (normalize_row r)) \<and>
          (eps \<le> l2_norm r \<and> (\<Sum>x\<leftarrow>r. x ^ 2) \<le> float32_max \<longrightarrow>
             l2_norm (normalize_row r) = 1)"
    using ir vec unit by blast
  show ?thesis
    by (intro conjI) (rule stored search_sends unit)+
qed

text \<open>
  The page of \<^verbatim>\<open>a.pdf\<close> is embedded as (2, 0) and stored as (2, 0) normalised, of norm
  1; the question \<^verbatim>\<open>abc\<close> is embedded as (3, 0) and sent as (3, 0) normalised, of
  norm 1.
\<close>

theorem vectors_normalized_when_in_range_witness:
  "encode_docs example_env [example_doc] length_encoder = Inr [example_dict] \<and>
   (0 :: nat) < length [example_dict] \<and>
   eps \<le> l2_norm [2, 0] \<and>
   (\<Sum>x\<leftarrow>[2, 0 :: real]. x ^ 2) \<le> float32_max \<and>
   map_of ([example_dict] ! 0) ''vector'' = Some (PVec (normalize_row [2, 0])) \<and>
   l2_norm (normalize_row [2, 0]) = 1 \<and>
   eps \<le> l2_norm (encode_single length_encoder ''abc'') \<and>
   (\<Sum>x\<leftarrow>encode_single length_encoder ''abc''. x ^ 2) \<le> float32_max \<and>
   search example_store (MilvusClient ''db/rag.db'') length_encoder [example_dict] ''abc'' None =
     mc_search example_store (MilvusClient ''db/rag.db'') COLLECTION_NAME
       [normalize_row (encode_single length_encoder ''abc'')]
       [''chunk'', ''source'', ''page''] 5 ''Eventually'' \<and>
   l2_norm (normalize_row (encode_single length_encoder ''abc'')) = 1"
proof -
  have run: "encode_docs example_env [example_doc] length_encoder = Inr [example_dict]"
    by (rule example_encode_docs)
  have i: "(0 :: nat) < length [example_dict]" by simp
  have raw: "encode_batch length_encoder
      (list_of_strings (split_documents example_env child_splitter [example_doc])) ! 0 = [2, 0]"
    by (simp add: example_env_def example_doc_def length_encoder_def list_of_strings_def)
  have big: "eps \<le> l2_norm [2, 0]"
    by (simp add: eps_def l2_norm_def)
  have fits: "(\<Sum>x\<leftarrow>[2, 0 :: real]. x ^ 2) \<le> float32_max"
    by (simp add: float32_max_def)
  have bigq: "eps \<le> l2_norm (encode_single length_encoder ''abc'')"
    by (simp add: eps_def l2_norm_def length_encoder_def)
  have fitsq: "(\<Sum>x\<leftarrow>encode_single length_encoder ''abc''. x ^ 2) \<le> float32_max"
    by (simp add: float32_max_def length_encoder_def)
  note main = vectors_normalized_when_in_range [OF run i,
      of example_store "MilvusClient ''db/rag.db''" example_dict "[]" "''abc''" None]
  from main raw big fits
  have stored: "map_of ([example_dict] ! 0) ''vector'' = Some (PVec (normalize_row [2, 0])) \<and>
      l2_norm (normalize_row [2, 0]) = 1"
    by auto
  from main example_fields
  have sent: "search example_store (MilvusClient ''db/rag.db'') length_encoder [example_dict]
      ''abc'' None =
     mc_search example_store (MilvusClient ''db/rag.db'') COLLECTION_NAME
       [normalize_row (encode_single length_encoder ''abc'')]
       [''chunk'', ''source'', ''page''] 5 ''Eventually''"
    by simp
  from main bigq fitsq
  have unitq: "l2_norm (normalize_row (encode_single length_encoder ''abc'')) = 1"
    by blast
  from run i big fits stored bigq fitsq sent unitq show ?thesis by blast
qed

subsection \<open>C2: the configuration of the splitter\<close>

lemma floor_overlap: "\<lfloor>(576 :: rat) / 5\<rfloor> = 115"
  by (rule floor_unique) simp_all

lemma chunk_overlap_value: "chunk_overlap = 115"
  by (simp add: chunk_overlap_def CHUNK_SIZE_def floor_overlap)

text \<open>
  C2. For every sequence of input documents, \<open>encode_docs\<close> splits with one fixed
  configuration: chunk size 384, overlap \<open>\<lfloor>384 * 0.3\<rfloor> = 115\<close>, and the separators
  paragraph break, line break, \<^verbatim>\<open>". "\<close>, \<^verbatim>\<open>", "\<close>, \<^verbatim>\<open>" "\<close> and the empty string, in
  that order. The chunks it embeds and stores are what the splitter, whichever it is,
  returns for that configuration.
\<close>

theorem encode_docs_splitter_configuration:
  "nat \<lfloor>(384 :: rat) * (3 / 10)\<rfloor> = 115 \<and>
   child_splitter =
     \<lparr>cfg_chunk_size = 384,
      cfg_chunk_overlap = 115,
      cfg_separators = [[CHR 0x0A, CHR 0x0A], [CHR 0x0A], ''. '', '', '', '' '', '''']\<rparr> \<and>
   encode_docs e docs enc =
     (let chunks =
            split_documents e
              \<lparr>cfg_chunk_size = 384,
               cfg_chunk_overlap = 115,
               cfg_separators =
                 [[CHR 0x0A, CHR 0x0A], [CHR 0x0A], ''. '', '', '', '' '', '''']\<rparr>
              docs
      in build_dict_list
           (zip chunks (F_normalize (encode_batch enc (list_of_strings chunks)))))"
proof -
  have cfg: "child_splitter =
     \<lparr>cfg_chunk_size = 384,
      cfg_chunk_overlap = 115,
      cfg_separators = [[CHR 0x0A, CHR 0x0A], [CHR 0x0A], ''. '', '', '', '' '', '''']\<rparr>"
    by (simp add: child_splitter_def CHUNK_SIZE_def chunk_overlap_value)
  have fl: "nat \<lfloor>(384 :: rat) * (3 / 10)\<rfloor> = 115"
    by (simp add: floor_overlap)
  have run: "encode_docs e docs enc =
     (let chunks = split_documents e child_splitter docs
      in build_dict_list
           (zip chunks (F_normalize (encode_batch enc (list_of_strings chunks)))))"
    by (simp add: encode_docs_def Let_def)
  show ?thesis
    using fl run unfolding cfg by simp
qed

subsection \<open>C3: a path that does not exist\<close>

text \<open>
  C3. For every path that \<^verbatim>\<open>os.path.exists\<close> does not find, \<open>init_rag\<close> raises
  \<^verbatim>\<open>FileNotFoundError\<close> with a message that contains the path, and the store it leaves
  is the store it was given: no collection was created and nothing was inserted.
\<close>

theorem init_rag_file_not_found:
  assumes "\<not> os_path_exists e pdf_path"
  shows "init_rag e st pdf_path force_reload =
     (Inl (FileNotFoundError
            (''File not found: '' @ pdf_path @ ''. Please provide a valid file path.'')),
      st)"
  using assms by (simp add: init_rag_def load_file_def)

theorem init_rag_file_not_found_witness:
  "\<not> os_path_exists example_env ''/nonexistent.pdf'' \<and>
   init_rag example_env example_store ''/nonexistent.pdf'' False =
     (Inl (FileNotFoundError
            ''File not found: /nonexistent.pdf. Please provide a valid file path.''),
      example_store)"
proof -
  have h: "\<not> os_path_exists example_env ''/nonexistent.pdf''"
    by (simp add: example_env_def)
  show ?thesis
    using h init_rag_file_not_found [OF h, of example_store False] by simp
qed

subsection \<open>C4: vectors and texts correspond index for index\<close>



subsection \<open>C5: at most \<open>top_k\<close> results, best first\<close>

lemma example_search_fresh:
  "search example_store (MilvusClient ''db/rag.db'') length_encoder [example_dict] ''abc'' None =
     Inr [[]]"
proof -
  have row: "normalize_row (encode_single length_encoder ''abc'') = [1, 0]"
    by (simp add: normalize_row_def l2_norm_def eps_def float32_max_def length_encoder_def)
  have found: "mc_search example_store (MilvusClient ''db/rag.db'') COLLECTION_NAME [[1, 0]]
      [''chunk'', ''source'', ''page''] 5 ''Eventually'' = Inr [[]]"
    by (simp add: mc_search_def MilvusClient_def COLLECTION_NAME_def example_store_def
        example_collection_def visible_entities_def best_first_def)
  show ?thesis
    using example_fields by (simp add: search_sends row found)
qed

lemma example_search_settled:
  "search (settle example_store (''db/rag.db'', ''pdfs'')) (MilvusClient ''db/rag.db'')
     length_encoder [example_dict] ''abc'' None =
     Inr [[\<lparr>hit_id = 0, distance = 1,
            entity = [(''chunk'', PStr ''ab''), (''source'', PStr ''a.pdf''),
                      (''page'', PInt 0)]\<rparr>]]"
proof -
  have row: "normalize_row (encode_single length_encoder ''abc'') = [1, 0]"
    by (simp add: normalize_row_def l2_norm_def eps_def float32_max_def length_encoder_def)
  have found: "mc_search (settle example_store (''db/rag.db'', ''pdfs''))
      (MilvusClient ''db/rag.db'') COLLECTION_NAME [[1, 0]]
      [''chunk'', ''source'', ''page''] 5 ''Eventually'' =
     Inr [[\<lparr>hit_id = 0, distance = 1,
            entity = [(''chunk'', PStr ''ab''), (''source'', PStr ''a.pdf''),
                      (''page'', PInt 0)]\<rparr>]]"
    by (simp add: mc_search_def settle_def MilvusClient_def COLLECTION_NAME_def
        example_store_def example_collection_def visible_entities_def best_first_def
        to_hit_def similarity_def inner_product_def vector_of_def example_dict_def)
  show ?thesis
    using example_fields found by (simp add: search_sends row)
qed

lemma example_search_two:
  "search two_store (MilvusClient ''db/rag.db'') parity_encoder [dict_ab, dict_abc] ''abc''
     (Some 1) =
     Inr [[\<lparr>hit_id = 1, distance = 1,
            entity = [(''chunk'', PStr ''abc''), (''source'', PStr ''''),
                      (''page'', PInt 0)]\<rparr>]]"
proof -
  have row: "normalize_row (encode_single parity_encoder ''abc'') = [1, 0]"
    by (simp add: normalize_row_def l2_norm_def eps_def float32_max_def parity_encoder_def)
  have sims: "\<And>i. similarity [1, 0] (i, dict_ab) = 0" "\<And>i. similarity [1, 0] (i, dict_abc) = 1"
    by (simp_all add: similarity_def inner_product_def vector_of_def dict_ab_def dict_abc_def)
  have ranked: "\<And>i j. best_first [1, 0] [(i, dict_ab), (j, dict_abc)] =
      [(j, dict_abc), (i, dict_ab)]"
    by (simp add: best_first_def sims)
  have found: "mc_search two_store (MilvusClient ''db/rag.db'') COLLECTION_NAME [[1, 0]]
      [''chunk'', ''source'', ''page''] 1 ''Eventually'' =
     Inr [[\<lparr>hit_id = 1, distance = 1,
            entity = [(''chunk'', PStr ''abc''), (''source'', PStr ''''),
                      (''page'', PInt 0)]\<rparr>]]"
    by (simp add: mc_search_def MilvusClient_def COLLECTION_NAME_def two_store_def
        visible_entities_def ranked to_hit_def sims)
      (simp add: dict_abc_def)
  show ?thesis
    using example_fields found by (simp add: search_sends row)
qed

text \<open>
  C5, as stated, fails on the store that an ingest has just left, before the delay of
  the consistency level \<^verbatim>\<open>Eventually\<close> has passed. The one record of \<^verbatim>\<open>a.pdf\<close> is
  indexed and not visible yet; \<open>top_k\<close> is left out, so it is 5 and exceeds the number
  of indexed records; the search returns no hit, not one. Once the record is visible the
  same search returns it.
\<close>

theorem search_right_after_ingest_counterexample:
  "init_rag example_env Map.empty ''a.pdf'' False =
     (Inr (MilvusClient ''db/rag.db'', length_encoder, [example_dict]), example_store) \<and>
   example_store (''db/rag.db'', ''pdfs'') = Some example_collection \<and>
   length (col_entities example_collection) = 1 \<and>
   search example_store (MilvusClient ''db/rag.db'') length_encoder [example_dict] ''abc'' None =
     Inr [[]] \<and>
   search (settle example_store (''db/rag.db'', ''pdfs'')) (MilvusClient ''db/rag.db'')
     length_encoder [example_dict] ''abc'' None =
     Inr [[\<lparr>hit_id = 0, distance = 1,
            entity = [(''chunk'', PStr ''ab''), (''source'', PStr ''a.pdf''),
                      (''page'', PInt 0)]\<rparr>]]"
proof -
  have ingest: "init_rag example_env Map.empty ''a.pdf'' False =
     (Inr (MilvusClient ''db/rag.db'', length_encoder, [example_dict]), example_store)"
    by (simp add: example_init_rag example_store_def)
  have held: "example_store (''db/rag.db'', ''pdfs'') = Some example_collection"
    by (simp add: example_store_def)
  have one: "length (col_entities example_collection) = 1"
    by (simp add: example_collection_def)
  from ingest held one example_search_fresh example_search_settled show ?thesis by simp
qed

text \<open>
  C5, amended. When \<open>search\<close> returns, it returns one list of hits for the question.
  With \<open>q\<close> the normalised embedding of the question, the hits are the first \<open>top_k\<close>
  (5 when \<open>top_k\<close> is left out) of the records visible to the search, taken in order of
  decreasing similarity to \<open>q\<close>; each hit carries that similarity as its distance, and
  the fields of its record but the vector. So there are at most \<open>top_k\<close> hits, best
  first, and exactly as many as the smaller of \<open>top_k\<close> and the number of visible
  records. When every indexed record is visible and \<open>top_k\<close> is at least their number,
  all the indexed records come back and no more.
\<close>

theorem search_top_k_of_visible_best_first:
  assumes "search st mc enc dict_list question top_k = Inr results"
  shows "\<exists>d0 ds c ranked hits.
     dict_list = d0 # ds \<and>
     st (db_file mc, COLLECTION_NAME) = Some c \<and>
     mset ranked = mset (visible_entities c ''Eventually'') \<and>
     sorted_wrt (\<lambda>a b. similarity (normalize_row (encode_single enc question)) b
                        \<le> similarity (normalize_row (encode_single enc question)) a) ranked \<and>
     hits = map (to_hit (normalize_row (encode_single enc question))
                  (remove1 ''vector'' (map fst d0)))
              (take (case top_k of None \<Rightarrow> 5 | Some k \<Rightarrow> k) ranked) \<and>
     results = [hits] \<and>
     map distance hits =
       map (\<lambda>e. inner_product (normalize_row (encode_single enc question)) (vector_of (snd e)))
         (take (case top_k of None \<Rightarrow> 5 | Some k \<Rightarrow> k) ranked) \<and>
     sorted_wrt (\<ge>) (map distance hits) \<and>
     length hits \<le> (case top_k of None \<Rightarrow> 5 | Some k \<Rightarrow> k) \<and>
     length hits = min (case top_k of None \<Rightarrow> 5 | Some k \<Rightarrow> k)
                     (length (visible_entities c ''Eventually'')) \<and>
     (length (col_entities c) \<le> col_visible c \<and>
      length (col_entities c) \<le> (case top_k of None \<Rightarrow> 5 | Some k \<Rightarrow> k) \<longrightarrow>
        length hits = length (col_entities c))"
proof -
  let ?limit = "case top_k of None \<Rightarrow> (5 :: nat) | Some k \<Rightarrow> k"
  let ?q = "normalize_row (encode_single enc question)"
  from assms obtain d0 ds where dl: "dict_list = d0 # ds"
    by (cases dict_list) (simp_all add: search_def Let_def)
  let ?fields = "remove1 ''vector'' (map fst d0)"
  from assms dl have found:
    "mc_search st mc COLLECTION_NAME [?q] ?fields ?limit ''Eventually'' = Inr results"
    by (simp add: search_sends split: if_splits)
  then obtain c where c: "st (db_file mc, COLLECTION_NAME) = Some c"
    by (auto simp: mc_search_def split: option.splits)
  let ?seen = "visible_entities c ''Eventually''"
  let ?ranked = "best_first ?q ?seen"
  let ?hits = "map (to_hit ?q ?fields) (take ?limit ?ranked)"
  from found c have res: "results = [?hits]"
    by (auto simp: mc_search_def split: if_splits)
  have perm: "mset ?ranked = mset ?seen"
    by (rule best_first_mset)
  have ord: "sorted_wrt (\<lambda>a b. similarity ?q b \<le> similarity ?q a) ?ranked"
    by (rule best_first_ranked)
  have dist: "map distance ?hits =
      map (\<lambda>e. inner_product ?q (vector_of (snd e))) (take ?limit ?ranked)"
    by (simp add: to_hit_def similarity_def)
  have "map distance ?hits = map (similarity ?q) (take ?limit (best_first ?q ?seen))"
    by (simp add: to_hit_def)
  then have dec: "sorted_wrt (\<ge>) (map distance ?hits)"
    by (simp only: best_first_sorted)
  have lr: "length ?ranked = length ?seen"
    using perm by (rule mset_eq_length)
  have len: "length ?hits = min ?limit (length ?seen)"
    by (simp add: lr min.commute)
  have le: "length ?hits \<le> ?limit"
    by simp
  have full: "length (col_entities c) \<le> col_visible c \<and> length (col_entities c) \<le> ?limit \<longrightarrow>
      length ?hits = length (col_entities c)"
    unfolding len by (simp add: visible_entities_def)
  show ?thesis
    apply (rule exI [of _ d0])
    apply (rule exI [of _ ds])
    apply (rule exI [of _ c])
    apply (rule exI [of _ ?ranked])
    apply (rule exI [of _ ?hits])
    apply (intro conjI)
              apply (rule dl)
             apply (rule c)
            apply (rule perm)
           apply (rule ord)
          apply (rule refl)
         apply (rule res)
        apply (rule dist)
       apply (rule dec)
      apply (rule le)
     apply (rule len)
    apply (rule full)
    done
qed

text \<open>
  Two records are visible and \<open>top_k\<close> is 1. The question \<^verbatim>\<open>abc\<close> is closest to the
  record inserted second, and that record is the one hit.
\<close>

theorem search_top_k_of_visible_best_first_witness:
  "search two_store (MilvusClient ''db/rag.db'') parity_encoder [dict_ab, dict_abc] ''abc''
     (Some 1) =
     Inr [[\<lparr>hit_id = 1, distance = 1,
            entity = [(''chunk'', PStr ''abc''), (''source'', PStr ''''),
                      (''page'', PInt 0)]\<rparr>]] \<and>
   (\<exists>c hits. two_store (db_file (MilvusClient ''db/rag.db''), COLLECTION_NAME) = Some c \<and>
        [[\<lparr>hit_id = 1, distance = 1,
            entity = [(''chunk'', PStr ''abc''), (''source'', PStr ''''),
                      (''page'', PInt 0)]\<rparr>]] = [hits] \<and>
        length (visible_entities c ''Eventually'') = 2 \<and>
        length hits = min 1 (length (visible_entities c ''Eventually'')))"
proof -
  have run: "search two_store (MilvusClient ''db/rag.db'') parity_encoder [dict_ab, dict_abc]
      ''abc'' (Some 1) =
     Inr [[\<lparr>hit_id = 1, distance = 1,
            entity = [(''chunk'', PStr ''abc''), (''source'', PStr ''''),
                      (''page'', PInt 0)]\<rparr>]]"
    by (rule example_search_two)
  have two: "\<And>c. two_store (db_file (MilvusClient ''db/rag.db''), COLLECTION_NAME) = Some c
      \<Longrightarrow> length (visible_entities c ''Eventually'') = 2"
    by (auto simp: two_store_def MilvusClient_def COLLECTION_NAME_def visible_entities_def)
  from search_top_k_of_visible_best_first [OF run]
  obtain c hits where
    c: "two_store (db_file (MilvusClient ''db/rag.db''), COLLECTION_NAME) = Some c" and
    res: "[[\<lparr>hit_id = 1, distance = 1,
            entity = [(''chunk'', PStr ''abc''), (''source'', PStr ''''),
                      (''page'', PInt 0)]\<rparr>]] = [hits]" and
    len: "length hits = min (case Some 1 of None \<Rightarrow> 5 | Some k \<Rightarrow> k)
                     (length (visible_entities c ''Eventually''))"
    by (elim exE conjE) (rule that)
  from len have len1: "length hits = min 1 (length (visible_entities c ''Eventually''))"
    by simp
  from c res two [OF c] len1
  have "\<exists>c hits. two_store (db_file (MilvusClient ''db/rag.db''), COLLECTION_NAME) = Some c \<and>
        [[\<lparr>hit_id = 1, distance = 1,
            entity = [(''chunk'', PStr ''abc''), (''source'', PStr ''''),
                      (''page'', PInt 0)]\<rparr>]] = [hits] \<and>
        length (visible_entities c ''Eventually'') = 2 \<and>
        length hits = min 1 (length (visible_entities c ''Eventually''))"
    by blast
  with run show ?thesis by blast
qed

subsection \<open>C7: the batch path and the single path\<close>

text \<open>
  C7, as stated, fails at a model that is deterministic and answers a batch
  differently from a single text. \<open>split_encoder\<close> returns (1, 0) for every text of a
  list and (0, 1) for every single text, the same at every call. The page of
  \<^verbatim>\<open>a.pdf\<close>, whose text is \<^verbatim>\<open>ab\<close>, is stored with the vector (1, 0); for the
  question \<^verbatim>\<open>ab\<close> the search sends the vector (0, 1) to the store.
\<close>

theorem batch_and_single_path_differ_counterexample:
  "encode_docs example_env [example_doc] split_encoder = Inr [example_dict] \<and>
   map_of example_dict ''chunk'' = Some (PStr ''ab'') \<and>
   map_of example_dict ''vector'' = Some (PVec [1, 0]) \<and>
   query_embeddings split_encoder ''ab'' = [[0, 1]] \<and>
   search example_store (MilvusClient ''db/rag.db'') split_encoder [example_dict] ''ab'' None =
     mc_search example_store (MilvusClient ''db/rag.db'') COLLECTION_NAME [[0, 1]]
       [''chunk'', ''source'', ''page''] 5 ''Eventually'' \<and>
   [1, 0] \<noteq> [0, 1 :: real]"
proof -
  have stored: "map_of example_dict ''chunk'' = Some (PStr ''ab'')"
    "map_of example_dict ''vector'' = Some (PVec [1, 0])"
    by (simp_all add: example_dict_def)
  have row: "normalize_row (encode_single split_encoder ''ab'') = [0, 1]"
    by (simp add: normalize_row_def l2_norm_def eps_def float32_max_def split_encoder_def)
  have q: "query_embeddings split_encoder ''ab'' = [[0, 1]]"
    by (simp add: query_embeddings_row row)
  have sent: "search example_store (MilvusClient ''db/rag.db'') split_encoder [example_dict]
      ''ab'' None =
     mc_search example_store (MilvusClient ''db/rag.db'') COLLECTION_NAME [[0, 1]]
       [''chunk'', ''source'', ''page''] 5 ''Eventually''"
    using example_fields by (simp add: search_sends row)
  from example_encode_split stored q sent show ?thesis by simp
qed

text \<open>
  C7, amended. Take a model that returns, for the list of chunk texts, the vector that
  it returns for each text alone, in order. Then the vector stored with a chunk by
  \<open>encode_docs\<close> (the batch path) is the very vector that \<open>search\<close> sends to the store
  when the question is that chunk's text (the single path): both paths apply the same
  normalisation to the same row. That the model is deterministic does not give the
  hypothesis. Equal means equal as values of the model; the rounding inside the
  libraries is not represented.
\<close>

theorem batch_and_single_path_agree:
  assumes "encode_docs e docs enc = Inr dict_list"
    and "i < length dict_list"
    and "encode_batch enc (list_of_strings (split_documents e child_splitter docs)) =
           map (encode_single enc) (list_of_strings (split_documents e child_splitter docs))"
    and "map_of (dict_list ! i) ''chunk'' = Some (PStr t)"
  shows "\<exists>v. map_of (dict_list ! i) ''vector'' = Some (PVec v) \<and>
     query_embeddings enc t = [v] \<and>
     search st mc enc (d0 # ds) t top_k =
       (if ''vector'' \<notin> set (map fst d0) then Inl ValueError
        else mc_search st mc COLLECTION_NAME [v] (remove1 ''vector'' (map fst d0))
               (case top_k of None \<Rightarrow> 5 | Some k \<Rightarrow> k) ''Eventually'')"
proof -
  define chunks where "chunks = split_documents e child_splitter docs"
  define los where "los = list_of_strings chunks"
  from encode_docs_nth [OF assms(1,2)] have
    il: "i < length los" and
    chunk_text: "map_of (dict_list ! i) ''chunk'' = Some (PStr (los ! i))" and
    vec: "map_of (dict_list ! i) ''vector'' =
            Some (PVec (normalize_row (encode_batch enc los ! i)))"
    by (simp_all add: chunks_def los_def)
  from chunk_text assms(4) have t: "los ! i = t" by simp
  from assms(3) have "encode_batch enc los ! i = encode_single enc (los ! i)"
    using il by (simp add: chunks_def los_def)
  with vec t have stored:
    "map_of (dict_list ! i) ''vector'' = Some (PVec (normalize_row (encode_single enc t)))"
    by simp
  from stored query_embeddings_row search_sends show ?thesis by blast
qed

text \<open>
  Two pages in one batch, with a model that tells their texts apart: the second page,
  whose text is \<^verbatim>\<open>abc\<close>, is stored with the vector (1, 0), and the question
  \<^verbatim>\<open>abc\<close> is sent as (1, 0).
\<close>

theorem batch_and_single_path_agree_witness:
  "encode_docs example_env [example_doc, bare_doc] parity_encoder = Inr [dict_ab, dict_abc] \<and>
   (1 :: nat) < length [dict_ab, dict_abc] \<and>
   encode_batch parity_encoder
       (list_of_strings (split_documents example_env child_splitter [example_doc, bare_doc])) =
     map (encode_single parity_encoder)
       (list_of_strings (split_documents example_env child_splitter [example_doc, bare_doc])) \<and>
   map_of ([dict_ab, dict_abc] ! 1) ''chunk'' = Some (PStr ''abc'') \<and>
   map_of ([dict_ab, dict_abc] ! 1) ''vector'' = Some (PVec [1, 0]) \<and>
   query_embeddings parity_encoder ''abc'' = [[1, 0]] \<and>
   map_of ([dict_ab, dict_abc] ! 0) ''vector'' = Some (PVec [0, 1])"
proof -
  have run: "encode_docs example_env [example_doc, bare_doc] parity_encoder =
      Inr [dict_ab, dict_abc]"
    by (rule example_encode_two)
  have i: "(1 :: nat) < length [dict_ab, dict_abc]" by simp
  have det: "encode_batch parity_encoder
       (list_of_strings (split_documents example_env child_splitter [example_doc, bare_doc])) =
     map (encode_single parity_encoder)
       (list_of_strings (split_documents example_env child_splitter [example_doc, bare_doc]))"
    by (rule parity_encoder_batch)
  have chunk_text: "map_of ([dict_ab, dict_abc] ! 1) ''chunk'' = Some (PStr ''abc'')"
    by (simp add: dict_abc_def)
  have stored: "map_of ([dict_ab, dict_abc] ! 1) ''vector'' = Some (PVec [1, 0])"
    by (simp add: dict_abc_def)
  have other: "map_of ([dict_ab, dict_abc] ! 0) ''vector'' = Some (PVec [0, 1])"
    by (simp add: dict_ab_def)
  from batch_and_single_path_agree [OF run i det chunk_text] stored
  have q: "query_embeddings parity_encoder ''abc'' = [[1, 0]]"
    by auto
  from run i det chunk_text stored q other show ?thesis by blast
qed

subsection \<open>C8: searching with no ingested record\<close>

text \<open>
  C8. With an empty \<open>dict_list\<close>, \<open>search\<close> (and \<open>rag_search\<close>, which calls it) raises
  \<^verbatim>\<open>IndexError\<close> at \<^verbatim>\<open>dict_list[0]\<close>, whatever the store holds, the client, the model,
  the question and \<open>top_k\<close> are: the store is not consulted.
\<close>

theorem search_empty_dict_list:
  "search st mc enc [] question top_k = Inl IndexError \<and>
   rag_search st mc enc [] question top_k = Inl IndexError"
  by (simp add: rag_search_def search_def)

text \<open>
  On a store with no collection a lookup would raise \<^verbatim>\<open>CollectionNotFound\<close>; the search
  with an empty \<open>dict_list\<close> raises \<^verbatim>\<open>IndexError\<close> there too.
\<close>

theorem search_empty_dict_list_witness:
  "search Map.empty (MilvusClient ''db/rag.db'') length_encoder [] ''q'' None = Inl IndexError \<and>
   rag_search Map.empty (MilvusClient ''db/rag.db'') length_encoder [] ''q'' None
     = Inl IndexError \<and>
   mc_search Map.empty (MilvusClient ''db/rag.db'') COLLECTION_NAME
     (query_embeddings length_encoder ''q'') [''chunk'', ''source'', ''page''] 5 ''Eventually''
     = Inl CollectionNotFound"
  using search_empty_dict_list [of Map.empty "MilvusClient ''db/rag.db''" length_encoder "''q''" None]
  by (simp add: mc_search_def)

subsection \<open>C9: the defaults of source and page\<close>

text \<open>
  C9, as stated, fails at a chunk whose metadata has both keys with values of other
  kinds: \<^verbatim>\<open>{'page': -1, 'source': 7}\<close>. \<^verbatim>\<open>metadata.get\<close> returns what is there,
  and the record carries the source 7, which is not a string, and the page -1.
\<close>

theorem ill_typed_metadata_stored_counterexample:
  "encode_docs example_env [ill_typed_doc] length_encoder = Inr [ill_typed_dict] \<and>
   metadata ill_typed_doc ''source'' = Some (PInt 7) \<and>
   metadata ill_typed_doc ''page'' = Some (PInt (- 1)) \<and>
   map_of ill_typed_dict ''source'' = Some (PInt 7) \<and>
   map_of ill_typed_dict ''page'' = Some (PInt (- 1)) \<and>
   \<not> is_string (PInt 7) \<and>
   \<not> is_page_number (PInt (- 1))"
proof -
  have given: "metadata ill_typed_doc ''source'' = Some (PInt 7)"
    "metadata ill_typed_doc ''page'' = Some (PInt (- 1))"
    by (simp_all add: ill_typed_doc_def)
  have stored: "map_of ill_typed_dict ''source'' = Some (PInt 7)"
    "map_of ill_typed_dict ''page'' = Some (PInt (- 1))"
    by (simp_all add: ill_typed_dict_def)
  have kinds: "\<not> is_string (PInt 7)" "\<not> is_page_number (PInt (- 1))"
    by (simp_all add: is_string_def is_page_number_def)
  from example_encode_ill_typed given stored kinds show ?thesis by simp
qed

text \<open>
  C9, amended. In every record that \<open>encode_docs\<close> returns, the source is the empty
  string when the chunk's metadata has no key \<^verbatim>\<open>source\<close>, and the page is 0 when it
  has no key \<^verbatim>\<open>page\<close>. A value that is present is stored as it is. So the record
  carries a string source and a non-negative integer page whenever the chunk's metadata
  is typed as the data model says: a source that is present is a string, a page that
  is present is a non-negative integer.
\<close>

theorem encode_docs_source_page_defaults:
  assumes "encode_docs e docs enc = Inr dict_list"
    and "i < length dict_list"
  shows "(metadata (split_documents e child_splitter docs ! i) ''source'' = None \<longrightarrow>
            map_of (dict_list ! i) ''source'' = Some (PStr '''')) \<and>
         (metadata (split_documents e child_splitter docs ! i) ''page'' = None \<longrightarrow>
            map_of (dict_list ! i) ''page'' = Some (PInt 0)) \<and>
         (\<forall>v. metadata (split_documents e child_splitter docs ! i) ''source'' = Some v \<longrightarrow>
            map_of (dict_list ! i) ''source'' = Some v) \<and>
         (\<forall>v. metadata (split_documents e child_splitter docs ! i) ''page'' = Some v \<longrightarrow>
            map_of (dict_list ! i) ''page'' = Some v) \<and>
         (well_typed_metadata (split_documents e child_splitter docs ! i) \<longrightarrow>
            (\<exists>s. map_of (dict_list ! i) ''source'' = Some (PStr s)) \<and>
            (\<exists>n. 0 \<le> n \<and> map_of (dict_list ! i) ''page'' = Some (PInt n)))"
proof -
  define chunk where "chunk = split_documents e child_splitter docs ! i"
  from encode_docs_nth [OF assms] have
    src: "map_of (dict_list ! i) ''source'' = Some (dict_get (metadata chunk) ''source'' (PStr ''''))"
    and page: "map_of (dict_list ! i) ''page'' = Some (dict_get (metadata chunk) ''page'' (PInt 0))"
    by (simp_all add: chunk_def)
  have a: "metadata chunk ''source'' = None \<longrightarrow>
      map_of (dict_list ! i) ''source'' = Some (PStr '''')"
    by (simp add: src dict_get_def)
  have b: "metadata chunk ''page'' = None \<longrightarrow>
      map_of (dict_list ! i) ''page'' = Some (PInt 0)"
    by (simp add: page dict_get_def)
  have a': "\<forall>v. metadata chunk ''source'' = Some v \<longrightarrow> map_of (dict_list ! i) ''source'' = Some v"
    by (simp add: src dict_get_def)
  have b': "\<forall>v. metadata chunk ''page'' = Some v \<longrightarrow> map_of (dict_list ! i) ''page'' = Some v"
    by (simp add: page dict_get_def)
  have c: "well_typed_metadata chunk \<longrightarrow>
      (\<exists>s. map_of (dict_list ! i) ''source'' = Some (PStr s)) \<and>
      (\<exists>n. 0 \<le> n \<and> map_of (dict_list ! i) ''page'' = Some (PInt n))"
    by (auto simp: src page dict_get_def well_typed_metadata_def is_string_def
        is_page_number_def split: option.splits pyval.splits)
  show ?thesis
    unfolding chunk_def [symmetric]
    by (intro conjI) (rule a b a' b' c)+
qed

text \<open>
  Of two pages the second has no metadata at all: its record gets the source \<^verbatim>\<open>''\<close>
  and the page 0. The first has a source and no page number: its record keeps the
  source and gets the page 0.
\<close>

theorem encode_docs_source_page_defaults_witness:
  "encode_docs example_env [example_doc, bare_doc] parity_encoder = Inr [dict_ab, dict_abc] \<and>
   (1 :: nat) < length [dict_ab, dict_abc] \<and>
   split_documents example_env child_splitter [example_doc, bare_doc] ! 1 = bare_doc \<and>
   metadata bare_doc ''source'' = None \<and>
   metadata bare_doc ''page'' = None \<and>
   well_typed_metadata bare_doc \<and>
   map_of ([dict_ab, dict_abc] ! 1) ''source'' = Some (PStr '''') \<and>
   map_of ([dict_ab, dict_abc] ! 1) ''page'' = Some (PInt 0) \<and>
   map_of ([dict_ab, dict_abc] ! 0) ''source'' = Some (PStr ''a.pdf'')"
proof -
  have run: "encode_docs example_env [example_doc, bare_doc] parity_encoder =
      Inr [dict_ab, dict_abc]"
    by (rule example_encode_two)
  have i: "(1 :: nat) < length [dict_ab, dict_abc]" by simp
  have chunk: "split_documents example_env child_splitter [example_doc, bare_doc] ! 1 = bare_doc"
    by (simp add: example_env_def)
  have none: "metadata bare_doc ''source'' = None" "metadata bare_doc ''page'' = None"
    by (simp_all add: bare_doc_def)
  have typed: "well_typed_metadata bare_doc"
    by (simp add: well_typed_metadata_def bare_doc_def)
  have kept: "map_of ([dict_ab, dict_abc] ! 0) ''source'' = Some (PStr ''a.pdf'')"
    by (simp add: dict_ab_def)
  from encode_docs_source_page_defaults [OF run i] chunk none
  have dflt: "map_of ([dict_ab, dict_abc] ! 1) ''source'' = Some (PStr '''') \<and>
      map_of ([dict_ab, dict_abc] ! 1) ''page'' = Some (PInt 0)"
    by simp
  from run i chunk none typed dflt kept show ?thesis by blast
qed

subsection \<open>C10: one collection, recreated by every ingest\<close>

text \<open>
  What \<open>save_vectors_to_db\<close> leaves: every collection but \<^verbatim>\<open>pdfs\<close> of
  \<^verbatim>\<open>db/rag.db\<close> is as it was, and when the insertion succeeds that collection holds the
  inserted records and no other.
\<close>

lemma save_vectors_to_db_cases:
  "save_vectors_to_db st dict_list embedding_dim =
     (if list_all (has_vector embedding_dim) dict_list
      then (Inr (MilvusClient ''db/rag.db''),
            st((''db/rag.db'', ''pdfs'') \<mapsto>
              \<lparr>col_dimension = embedding_dim,
               col_consistency_level = ''Eventually'',
               col_auto_id = True,
               col_next_id = length dict_list,
               col_visible = 0,
               col_entities = zip [0 ..< length dict_list] dict_list\<rparr>))
      else (Inl DimensionMismatch,
            st((''db/rag.db'', ''pdfs'') \<mapsto>
              \<lparr>col_dimension = embedding_dim,
               col_consistency_level = ''Eventually'',
               col_auto_id = True,
               col_next_id = 0,
               col_visible = 0,
               col_entities = []\<rparr>)))"
  by (simp add: save_vectors_to_db_def Let_def create_collection_def mc_insert_def
      MilvusClient_def COLLECTION_NAME_def)

lemma save_vectors_to_db_frame:
  assumes "save_vectors_to_db st dict_list embedding_dim = (r, st')"
    and "key \<noteq> (''db/rag.db'', ''pdfs'')"
  shows "st' key = st key"
  using assms by (auto simp: save_vectors_to_db_cases split: if_splits)

lemma save_vectors_to_db_records:
  assumes "save_vectors_to_db st dict_list embedding_dim = (Inr mc, st')"
  shows "mc = MilvusClient ''db/rag.db'' \<and>
     (\<exists>c. st' (''db/rag.db'', ''pdfs'') = Some c \<and> map snd (col_entities c) = dict_list)"
  using assms by (auto simp: save_vectors_to_db_cases split: if_splits)

lemma init_rag_frame:
  assumes "init_rag e st pdf_path force_reload = (r, st')"
    and "key \<noteq> (''db/rag.db'', ''pdfs'')"
  shows "st' key = st key"
proof (cases "load_file e pdf_path")
  case (Inl err)
  with assms show ?thesis by (simp add: init_rag_def)
next
  case (Inr docs)
  obtain encoder embedding_dim max_seq_length where
    m: "load_embedding_model e = (encoder, embedding_dim, max_seq_length)"
    by (cases "load_embedding_model e") auto
  show ?thesis
  proof (cases "encode_docs e docs encoder")
    case (Inl err)
    with assms Inr m show ?thesis by (simp add: init_rag_def)
  next
    case dl: (Inr dict_list)
    obtain r2 st2 where s: "save_vectors_to_db st dict_list embedding_dim = (r2, st2)"
      by (cases "save_vectors_to_db st dict_list embedding_dim") auto
    from assms(1) Inr m dl s have "st' = st2"
      by (cases r2) (simp_all add: init_rag_def)
    with save_vectors_to_db_frame [OF s assms(2)] show ?thesis by simp
  qed
qed

lemma init_rag_records:
  assumes "init_rag e st pdf_path force_reload = (Inr (mc, enc, dict_list), st')"
  shows "mc = MilvusClient ''db/rag.db'' \<and>
     (\<exists>c. st' (''db/rag.db'', ''pdfs'') = Some c \<and> map snd (col_entities c) = dict_list)"
proof (cases "load_file e pdf_path")
  case (Inl err)
  with assms show ?thesis by (simp add: init_rag_def)
next
  case (Inr docs)
  obtain encoder embedding_dim max_seq_length where
    m: "load_embedding_model e = (encoder, embedding_dim, max_seq_length)"
    by (cases "load_embedding_model e") auto
  show ?thesis
  proof (cases "encode_docs e docs encoder")
    case (Inl err)
    with assms Inr m show ?thesis by (simp add: init_rag_def)
  next
    case dl: (Inr dl')
    obtain r2 st2 where s: "save_vectors_to_db st dl' embedding_dim = (r2, st2)"
      by (cases "save_vectors_to_db st dl' embedding_dim") auto
    from assms Inr m dl s have "r2 = Inr mc \<and> st2 = st' \<and> dl' = dict_list"
      by (cases r2) (simp_all add: init_rag_def)
    with save_vectors_to_db_records s show ?thesis by blast
  qed
qed

lemma search_reads_one_collection:
  assumes "sa (db_file mc, ''pdfs'') = sb (db_file mc, ''pdfs'')"
  shows "search sa mc enc dict_list question top_k = search sb mc enc dict_list question top_k"
  using assms
  by (simp add: search_def Let_def mc_search_def COLLECTION_NAME_def split: list.splits)

text \<open>
  C10. The collection's name is \<^verbatim>\<open>pdfs\<close>, and the client that an ingest returns is
  opened on \<^verbatim>\<open>db/rag.db\<close>. An ingest, whether it succeeds or fails, changes no other
  collection of the store; a search through that client reads that collection and no
  other. A successful ingest leaves in the collection exactly the records it built: a
  second ingest on the store that a first one left replaces the records of the first.
\<close>

theorem ingest_recreates_the_one_collection:
  assumes "init_rag e1 st0 path1 reload1 = (r1, st1)"
    and "init_rag e2 st1 path2 reload2 = (Inr (mc, enc, dict_list), st2)"
  shows "COLLECTION_NAME = ''pdfs'' \<and>
     db_file mc = ''db/rag.db'' \<and>
     (\<exists>c. st2 (''db/rag.db'', ''pdfs'') = Some c \<and> map snd (col_entities c) = dict_list) \<and>
     (\<forall>key. key \<noteq> (''db/rag.db'', ''pdfs'') \<longrightarrow> st1 key = st0 key \<and> st2 key = st0 key) \<and>
     (\<forall>sa sb enc' dl question top_k.
        sa (''db/rag.db'', ''pdfs'') = sb (''db/rag.db'', ''pdfs'') \<longrightarrow>
        search sa mc enc' dl question top_k = search sb mc enc' dl question top_k)"
proof -
  from init_rag_records [OF assms(2)] have
    mc: "mc = MilvusClient ''db/rag.db''" and
    recs: "\<exists>c. st2 (''db/rag.db'', ''pdfs'') = Some c \<and> map snd (col_entities c) = dict_list"
    by simp_all
  have dbf: "db_file mc = ''db/rag.db''"
    by (simp add: mc MilvusClient_def)
  have frame: "\<forall>key. key \<noteq> (''db/rag.db'', ''pdfs'') \<longrightarrow>
      st1 key = st0 key \<and> st2 key = st0 key"
    using init_rag_frame [OF assms(1)] init_rag_frame [OF assms(2)] by simp
  have reads: "\<forall>sa sb enc' dl question top_k.
        sa (''db/rag.db'', ''pdfs'') = sb (''db/rag.db'', ''pdfs'') \<longrightarrow>
        search sa mc enc' dl question top_k = search sb mc enc' dl question top_k"
  proof (intro allI impI)
    fix sa sb :: store and enc' dl question top_k
    assume "sa (''db/rag.db'', ''pdfs'') = sb (''db/rag.db'', ''pdfs'')"
    then have "sa (db_file mc, ''pdfs'') = sb (db_file mc, ''pdfs'')"
      by (simp only: dbf)
    then show "search sa mc enc' dl question top_k = search sb mc enc' dl question top_k"
      by (rule search_reads_one_collection)
  qed
  have name: "COLLECTION_NAME = ''pdfs''"
    by (simp add: COLLECTION_NAME_def)
  show ?thesis
    by (intro conjI) (rule name dbf recs frame reads)+
qed

text \<open>
  Ingesting \<^verbatim>\<open>a.pdf\<close> twice leaves one record in the collection, not two.
\<close>

theorem ingest_recreates_the_one_collection_witness:
  "init_rag example_env Map.empty ''a.pdf'' False =
     (Inr (MilvusClient ''db/rag.db'', length_encoder, [example_dict]), example_store) \<and>
   init_rag example_env example_store ''a.pdf'' False =
     (Inr (MilvusClient ''db/rag.db'', length_encoder, [example_dict]), example_store) \<and>
   db_file (MilvusClient ''db/rag.db'') = ''db/rag.db'' \<and>
   (\<exists>c. example_store (''db/rag.db'', ''pdfs'') = Some c \<and>
        map snd (col_entities c) = [example_dict])"
proof -
  have one: "init_rag example_env Map.empty ''a.pdf'' False =
     (Inr (MilvusClient ''db/rag.db'', length_encoder, [example_dict]), example_store)"
    by (simp add: example_init_rag example_store_def)
  have two: "init_rag example_env example_store ''a.pdf'' False =
     (Inr (MilvusClient ''db/rag.db'', length_encoder, [example_dict]), example_store)"
    by (simp add: example_init_rag example_store_def)
  from ingest_recreates_the_one_collection [OF one two]
  have "db_file (MilvusClient ''db/rag.db'') = ''db/rag.db'' \<and>
      (\<exists>c. example_store (''db/rag.db'', ''pdfs'') = Some c \<and>
           map snd (col_entities c) = [example_dict])"
    by blast
  with one two show ?thesis by blast
qed

end
